theory Spec2Isabelle
  imports Main "HOL-Library.Sublist" "HOL-Library.AList" "HOL-Library.List_Lexorder"
begin

section \<open>Python strings\<close>

text \<open>
  A Python \<open>str\<close> is a sequence of Unicode code points. The builder compares strings,
  concatenates them and strips white space (\<open>str.strip()\<close>), and one of its labels
  carries the degree sign U+00B0, so a string is modelled as the list of its code points.
  \<open>lit\<close> embeds an ASCII literal.
\<close>

type_synonym pystr = "nat list"

abbreviation lit :: "string \<Rightarrow> pystr" where
  "lit s \<equiv> map of_char s"

text \<open>The code points that \<open>str.strip()\<close> removes (Python's \<open>str.isspace\<close>).\<close>

definition isspace :: "nat \<Rightarrow> bool" where
  "isspace c \<longleftrightarrow>
     (0x09 \<le> c \<and> c \<le> 0x0D) \<or> (0x1C \<le> c \<and> c \<le> 0x20) \<or> c = 0x85 \<or> c = 0xA0 \<or>
     c = 0x1680 \<or> (0x2000 \<le> c \<and> c \<le> 0x200A) \<or> c = 0x2028 \<or> c = 0x2029 \<or>
     c = 0x202F \<or> c = 0x205F \<or> c = 0x3000"

definition strip :: "pystr \<Rightarrow> pystr" where
  "strip s = rev (dropWhile isspace (rev (dropWhile isspace s)))"

text \<open>\<open>str(n)\<close> of a Python int, as an f-string formats it: decimal digits, a minus sign
  for a negative number.\<close>

fun digits :: "nat \<Rightarrow> pystr" where
  "digits n = (if n < 10 then [48 + n] else digits (n div 10) @ [48 + n mod 10])"

declare digits.simps [simp del]

definition str_of_int :: "int \<Rightarrow> pystr" where
  "str_of_int i = (if i < 0 then 45 # digits (nat (- i)) else digits (nat i))"

text \<open>\<open>sep.join(xs)\<close>.\<close>

fun join :: "pystr \<Rightarrow> pystr list \<Rightarrow> pystr" where
  "join sep [] = []"
| "join sep [x] = x"
| "join sep (x # y # ys) = x @ sep @ join sep (y # ys)"

section \<open>The option set\<close>

text \<open>
  The tk variables that \<open>_initialize_variables\<close> creates. Each field is the value that the
  variable's \<open>get()\<close> returns: a bool for a \<open>BooleanVar\<close>, an int for an \<open>IntVar\<close>, a
  string for a \<open>StringVar\<close>.
\<close>

record options =
  dark_mode :: bool
  scrcpy_path :: pystr
  generated_command :: pystr
  bit_rate :: int
  max_fps :: int
  max_size :: pystr
  fullscreen :: bool
  always_on_top :: bool
  show_touches :: bool
  turn_screen_off :: bool
  stay_awake :: bool
  audio_forward :: bool
  record_screen :: bool
  record_file_path :: pystr
  mirror_camera :: bool
  camera_facing :: pystr
  camera_size :: pystr
  camera_orientation :: pystr
  video_codec :: pystr
  audio_codec :: pystr
  video_buffer :: int
  v4l2_sink_path :: pystr
  audio_bit_rate :: pystr

text \<open>The entries of \<open>CONSTANTS\<close> that the variables and the builder use.\<close>

definition default_bit_rate :: int where "default_bit_rate = 8"
definition default_max_fps :: int where "default_max_fps = 60"
definition default_max_size :: pystr where "default_max_size = lit ''1080''"
definition default_audio_bit_rate :: pystr where "default_audio_bit_rate = lit ''128''"
definition default_video_buffer_ms :: int where "default_video_buffer_ms = 0"

text \<open>\<open>_initialize_variables\<close>: a \<open>BooleanVar()\<close> starts False, a \<open>StringVar()\<close> empty.\<close>

definition initialize_variables :: options where
  "initialize_variables =
     \<lparr> dark_mode = True,
       scrcpy_path = [],
       generated_command = lit ''Please select the scrcpy executable...'',
       bit_rate = default_bit_rate,
       max_fps = default_max_fps,
       max_size = default_max_size,
       fullscreen = False,
       always_on_top = False,
       show_touches = False,
       turn_screen_off = False,
       stay_awake = False,
       audio_forward = True,
       record_screen = False,
       record_file_path = [],
       mirror_camera = False,
       camera_facing = lit ''back'',
       camera_size = lit ''Default'',
       camera_orientation = lit ''Default'',
       video_codec = lit ''Default'',
       audio_codec = lit ''Default'',
       video_buffer = default_video_buffer_ms,
       v4l2_sink_path = [],
       audio_bit_rate = default_audio_bit_rate \<rparr>"

section \<open>The command builder\<close>

text \<open>The dict \<open>orientation_map\<close>; the degree sign is the code point 176.\<close>

definition orientation_map :: "(pystr \<times> pystr) list" where
  "orientation_map =
     [(lit ''0'' @ [176], lit ''0''), (lit ''90'' @ [176], lit ''1''),
      (lit ''180'' @ [176], lit ''2''), (lit ''270'' @ [176], lit ''3'')]"

text \<open>
  \<open>_build_scrcpy_command\<close>. \<open>None\<close> is Python's \<open>None\<close>; each \<open>command.append(t)\<close>
  under a condition is a segment \<open>if c then [t] else []\<close>, in the order of the source.
  The double quote is the code point 34.
\<close>

definition build_scrcpy_command :: "options \<Rightarrow> pystr list option" where
  "build_scrcpy_command opts =
     (let path = scrcpy_path opts in
      if path = [] then None
      else Some (
        [[34] @ path @ [34]]
        @ (if mirror_camera opts then
             [lit ''--video-source=camera'']
             @ [lit ''--camera-facing='' @ camera_facing opts]
             @ (if camera_size opts \<noteq> lit ''Default''
                then [lit ''--camera-size='' @ strip (camera_size opts)] else [])
             @ (case map_of orientation_map (camera_orientation opts) of
                  Some n \<Rightarrow> [lit ''--capture-orientation='' @ n]
                | None \<Rightarrow> [])
           else
             [lit ''--video-bit-rate='' @ str_of_int (bit_rate opts) @ lit ''M'']
             @ [lit ''--max-fps='' @ str_of_int (max_fps opts)]
             @ (if max_size opts \<noteq> lit ''Device Native''
                then [lit ''--max-size='' @ max_size opts] else []))
        @ (if fullscreen opts then [lit ''--fullscreen''] else [])
        @ (if always_on_top opts then [lit ''--always-on-top''] else [])
        @ (if show_touches opts then [lit ''--show-touches''] else [])
        @ (if turn_screen_off opts then [lit ''--turn-screen-off''] else [])
        @ (if stay_awake opts then [lit ''--stay-awake''] else [])
        @ (if \<not> audio_forward opts then [lit ''--no-audio'']
           else if audio_bit_rate opts \<noteq> default_audio_bit_rate
           then [lit ''--audio-bit-rate='' @ audio_bit_rate opts @ lit ''k''] else [])
        @ (if record_screen opts \<and> strip (record_file_path opts) \<noteq> []
           then [lit ''--record='' @ [34] @ strip (record_file_path opts) @ [34]] else [])
        @ (if video_codec opts \<noteq> lit ''Default''
           then [lit ''--video-codec='' @ video_codec opts] else [])
        @ (if audio_codec opts \<noteq> lit ''Default''
           then [lit ''--audio-codec='' @ audio_codec opts] else [])
        @ (if video_buffer opts > 0
           then [lit ''--video-buffer='' @ str_of_int (video_buffer opts)] else [])
        @ (if strip (v4l2_sink_path opts) \<noteq> []
           then [lit ''--v4l2-sink='' @ strip (v4l2_sink_path opts)] else [])))"

section \<open>The launch action\<close>

text \<open>
  What \<open>_launch_scrcpy\<close> does to the world around it, in order: the calls it makes on
  the message box, the connect button, the console, the process launcher and the timer.
  \<open>Wait\<close> stands for a call that blocks until the child exits (\<open>Popen.wait\<close>,
  \<open>Popen.communicate\<close>).
\<close>

datatype effect =
    ShowError pystr pystr
  | ConfigButton pystr pystr
  | UpdateIdletasks
  | Print pystr
  | Popen pystr bool pystr
  | Wait
  | After nat

text \<open>\<open>posixpath.dirname\<close>: the path up to its last slash, without trailing slashes
  unless it consists of slashes only. The slash is the code point 47.\<close>

definition posix_dirname :: "pystr \<Rightarrow> pystr" where
  "posix_dirname p =
     (let head = rev (dropWhile (\<lambda>c. c \<noteq> 47) (rev p)) in
      if head \<noteq> [] \<and> \<not> (\<forall>c\<in>set head. c = 47)
      then rev (dropWhile (\<lambda>c. c = 47) (rev head)) else head)"

text \<open>
  \<open>_launch_scrcpy\<close>. \<open>os.path.dirname\<close> is the platform's (\<open>posixpath\<close> or
  \<open>ntpath\<close>) and is a parameter; \<open>popen_error\<close> is the message of the exception that
  \<open>subprocess.Popen\<close> raises, \<open>None\<close> when it starts the child. \<open>not command_to_run\<close>
  holds for \<open>None\<close> and for the empty list.
\<close>

definition launch_scrcpy :: "(pystr \<Rightarrow> pystr) \<Rightarrow> pystr option \<Rightarrow> options \<Rightarrow> effect list" where
  "launch_scrcpy dirname popen_error opts =
     (let command_to_run = build_scrcpy_command opts in
      if command_to_run = None \<or> command_to_run = Some []
      then [ShowError (lit ''Error'') (lit ''Scrcpy executable path is not set.'')]
      else
        let final_command_str = join (lit '' '') (the command_to_run);
            scrcpy_dir = dirname (scrcpy_path opts)
        in [ConfigButton (lit ''disabled'') (lit ''Connecting...''),
            UpdateIdletasks,
            Print (lit ''Executing: '' @ final_command_str),
            Popen final_command_str True scrcpy_dir]
           @ (case popen_error of
                None \<Rightarrow> []
              | Some e \<Rightarrow> [ShowError (lit ''Execution Error'')
                                    (lit ''Failed to launch scrcpy:'' @ [10] @ e)])
           @ [After 3000])"

section \<open>The settings store\<close>

text \<open>
  The values that \<open>json.load\<close> returns. A Python float is opaque: no operation below
  looks inside one. A JSON object is kept as its members in file order. A string is the
  list of its characters; a str that holds a lone surrogate (the JSON escape of U+D800
  gives one) is not such a list and is the value \<open>JLoneSurrogate\<close>: tkinter cannot
  encode it for Tcl, so no tk variable holds one and no option set does.
\<close>

typedecl py_float

datatype json =
    JNull
  | JBool bool
  | JInt int
  | JFloat py_float
  | JString pystr
  | JLoneSurrogate
  | JArray "json list"
  | JObject "(pystr \<times> json) list"

text \<open>
  The settings file, by what \<open>open(path, 'r')\<close> and \<open>json.load\<close> do with it:
  \<^item> \<open>Unreadable\<close>: the path exists and \<open>open\<close> raises another \<open>OSError\<close> than
    \<open>FileNotFoundError\<close> (a directory, no permission);
  \<^item> \<open>Undecodable\<close>: the bytes are not text in the encoding of \<open>open\<close>
    (\<open>UnicodeDecodeError\<close>);
  \<^item> \<open>Empty\<close>: no text at all, and \<open>NotJson\<close>: text that the parser rejects as
    not being JSON (\<open>JSONDecodeError\<close>);
  \<^item> \<open>TooDeep\<close>: text nested deeper than the interpreter's recursion limit, a
    document or not (\<open>RecursionError\<close>);
  \<^item> \<open>HugeInt\<close>: text with an integer of more digits than the interpreter converts,
    4300 by default since Python 3.11 (\<open>ValueError\<close>);
  \<^item> \<open>Json v\<close>: a document that \<open>json.load\<close> returns as \<open>v\<close>.
\<close>

datatype file_content = Unreadable | Undecodable | Empty | NotJson | TooDeep | HugeInt | Json json

text \<open>The exceptions, each constructor for the class of its name; \<open>OSError\<close> is for
  the instances that are not a \<open>FileNotFoundError\<close>, \<open>ValueError\<close> for those of no
  subclass.\<close>

datatype exn =
    FileNotFoundError | OSError | UnicodeDecodeError | JSONDecodeError | RecursionError
  | ValueError | TypeError | AttributeError | TclError | UnicodeEncodeError

text \<open>\<open>open(self.settings_file, 'r')\<close> followed by \<open>json.load(f)\<close>; \<open>None\<close> is the
  missing file.\<close>

fun read_settings :: "file_content option \<Rightarrow> exn + json" where
  "read_settings None = Inl FileNotFoundError"
| "read_settings (Some Unreadable) = Inl OSError"
| "read_settings (Some Undecodable) = Inl UnicodeDecodeError"
| "read_settings (Some Empty) = Inl JSONDecodeError"
| "read_settings (Some NotJson) = Inl JSONDecodeError"
| "read_settings (Some TooDeep) = Inl RecursionError"
| "read_settings (Some HugeInt) = Inl ValueError"
| "read_settings (Some (Json v)) = Inr v"

text \<open>
  What a Tcl variable holds after tkinter stored a Python value in it: a Tcl integer, double,
  string or list. \<open>TStrOfDict d\<close> is the Tcl string of Python's \<open>str(d)\<close> for a dict
  \<open>d\<close>, whose text is not computed here.
\<close>

datatype tclobj =
    TInt int
  | TDouble py_float
  | TString pystr
  | TList "tclobj list"
  | TStrOfDict "(pystr \<times> json) list"

text \<open>The results of a loop that stops at the first exception.\<close>

fun collect :: "(exn + 'a) list \<Rightarrow> exn + 'a list" where
  "collect [] = Inr []"
| "collect (Inl e # rs) = Inl e"
| "collect (Inr x # rs) = (case collect rs of Inl e \<Rightarrow> Inl e | Inr xs \<Rightarrow> Inr (x # xs))"

text \<open>
  \<open>AsObj\<close> of \<open>_tkinter\<close>, the conversion that \<open>globalsetvar\<close> applies to the value
  it stores: a bool becomes the Tcl integer 1 or 0, an int and a float a Tcl number, a str a
  Tcl string unless it cannot be encoded, a list the Tcl list of its converted items, and
  anything else (\<open>None\<close>, a dict) the Tcl string of its \<open>str()\<close>.
\<close>

fun AsObj :: "json \<Rightarrow> exn + tclobj" where
  "AsObj JNull = Inr (TString (lit ''None''))"
| "AsObj (JBool b) = Inr (TInt (if b then 1 else 0))"
| "AsObj (JInt n) = Inr (TInt n)"
| "AsObj (JFloat f) = Inr (TDouble f)"
| "AsObj (JString s) = Inr (TString s)"
| "AsObj JLoneSurrogate = Inl UnicodeEncodeError"
| "AsObj (JArray xs) =
     (case collect (map AsObj xs) of Inl e \<Rightarrow> Inl e | Inr objs \<Rightarrow> Inr (TList objs))"
| "AsObj (JObject d) = Inr (TStrOfDict d)"

text \<open>
  A tk variable. A \<open>BooleanVar\<close> holds a bool, since its \<open>set\<close> converts. An \<open>IntVar\<close>
  and a \<open>StringVar\<close> hold what was stored: \<open>'i\<close> and \<open>'s\<close> are \<open>int\<close> and \<open>pystr\<close>
  where every variable holds a value of its own kind, and \<open>tclobj\<close> for the variables
  that \<open>load_settings\<close> writes to, which may then hold any value of the file.
\<close>

datatype ('i, 's) tkvar = BooleanVar bool | IntVar 'i | StringVar 's

text \<open>The attributes of the window that are tk variables, as \<open>_initialize_variables\<close>
  creates them, holding the values of an option set.\<close>

definition variables :: "options \<Rightarrow> (pystr \<times> (int, pystr) tkvar) list" where
  "variables opts =
     [(lit ''dark_mode'', BooleanVar (dark_mode opts)),
      (lit ''scrcpy_path'', StringVar (scrcpy_path opts)),
      (lit ''generated_command'', StringVar (generated_command opts)),
      (lit ''bit_rate'', IntVar (bit_rate opts)),
      (lit ''max_fps'', IntVar (max_fps opts)),
      (lit ''max_size'', StringVar (max_size opts)),
      (lit ''fullscreen'', BooleanVar (fullscreen opts)),
      (lit ''always_on_top'', BooleanVar (always_on_top opts)),
      (lit ''show_touches'', BooleanVar (show_touches opts)),
      (lit ''turn_screen_off'', BooleanVar (turn_screen_off opts)),
      (lit ''stay_awake'', BooleanVar (stay_awake opts)),
      (lit ''audio_forward'', BooleanVar (audio_forward opts)),
      (lit ''record_screen'', BooleanVar (record_screen opts)),
      (lit ''record_file_path'', StringVar (record_file_path opts)),
      (lit ''mirror_camera'', BooleanVar (mirror_camera opts)),
      (lit ''camera_facing'', StringVar (camera_facing opts)),
      (lit ''camera_size'', StringVar (camera_size opts)),
      (lit ''camera_orientation'', StringVar (camera_orientation opts)),
      (lit ''video_codec'', StringVar (video_codec opts)),
      (lit ''audio_codec'', StringVar (audio_codec opts)),
      (lit ''video_buffer'', IntVar (video_buffer opts)),
      (lit ''v4l2_sink_path'', StringVar (v4l2_sink_path opts)),
      (lit ''audio_bit_rate'', StringVar (audio_bit_rate opts))]"

text \<open>\<open>var.get()\<close> where the variable holds a value of its own kind, as the JSON value
  that \<open>json.dump\<close> writes for it.\<close>

fun get :: "(int, pystr) tkvar \<Rightarrow> json" where
  "get (BooleanVar b) = JBool b"
| "get (IntVar n) = JInt n"
| "get (StringVar s) = JString s"

text \<open>
  The dict comprehension of \<open>save_settings\<close>: \<open>dir(self)\<close> lists the attribute names
  in sorted order (strings compare by code points), and the names that hold a
  \<open>tk.Variable\<close> are kept, each with the value its \<open>get()\<close> returns.
\<close>

definition settings_to_save :: "options \<Rightarrow> (pystr \<times> json) list" where
  "settings_to_save opts = map (\<lambda>(var_name, var). (var_name, get var)) (sort_key fst (variables opts))"

text \<open>
  \<open>save_settings\<close>, as the new content of the settings file (\<open>None\<close>: no file). What
  \<open>open\<close> and \<open>json.dump\<close> do is the environment's: either the document is written,
  or an \<open>IOError\<close> is raised, caught and printed, and the file is left as \<open>left\<close>.
  The written file is taken to be the JSON document of the dict.
\<close>

datatype write_outcome = Written | IOError "file_content option"

definition save_settings :: "write_outcome \<Rightarrow> options \<Rightarrow> file_content option" where
  "save_settings outcome opts =
     (case outcome of
        Written \<Rightarrow> Some (Json (JObject (settings_to_save opts)))
      | IOError left \<Rightarrow> left)"

text \<open>
  \<open>Tcl_GetBoolean\<close> as Tcl 8.6 defines it: \<open>0\<close> and \<open>1\<close>, and the words \<open>false\<close>,
  \<open>no\<close>, \<open>off\<close>, \<open>true\<close>, \<open>yes\<close>, \<open>on\<close> in any letter case, each abbreviated to
  any unique prefix (so \<open>o\<close> alone is refused).
\<close>

definition lower :: "nat \<Rightarrow> nat" where
  "lower c = (if 65 \<le> c \<and> c \<le> 90 then c + 32 else c)"

definition Tcl_GetBoolean :: "pystr \<Rightarrow> bool option" where
  "Tcl_GetBoolean s =
     (let l = map lower s in
      if s = lit ''0'' then Some False
      else if s = lit ''1'' then Some True
      else if l = [] then None
      else if prefix l (lit ''yes'') \<or> prefix l (lit ''true'')
              \<or> (prefix l (lit ''on'') \<and> 2 \<le> length l) then Some True
      else if prefix l (lit ''no'') \<or> prefix l (lit ''false'')
              \<or> (prefix l (lit ''off'') \<and> 2 \<le> length l) then Some False
      else None)"

text \<open>
  \<open>tkapp.getboolean(arg)\<close>: a bool or an int is tested against zero; a str goes to
  \<open>Tcl_GetBoolean\<close> after its conversion to a C string, which raises
  \<open>UnicodeEncodeError\<close> on a lone surrogate and \<open>ValueError\<close> on an embedded null;
  anything else is a \<open>TypeError\<close>.
\<close>

definition getboolean :: "json \<Rightarrow> exn + bool" where
  "getboolean arg =
     (case arg of
        JBool b \<Rightarrow> Inr b
      | JInt n \<Rightarrow> Inr (n \<noteq> 0)
      | JString s \<Rightarrow>
          if 0 \<in> set s then Inl ValueError
          else (case Tcl_GetBoolean s of Some b \<Rightarrow> Inr b | None \<Rightarrow> Inl TclError)
      | JLoneSurrogate \<Rightarrow> Inl UnicodeEncodeError
      | _ \<Rightarrow> Inl TypeError)"

text \<open>
  \<open>var.set(value)\<close>: \<open>BooleanVar.set\<close> stores \<open>getboolean(value)\<close>; \<open>Variable.set\<close>,
  which \<open>IntVar\<close> and \<open>StringVar\<close> inherit, hands the value to \<open>globalsetvar\<close>,
  which stores its conversion by \<open>AsObj\<close> and checks no type.
\<close>

fun var_set :: "json \<Rightarrow> (tclobj, tclobj) tkvar \<Rightarrow> exn + (tclobj, tclobj) tkvar" where
  "var_set v (BooleanVar _) = (case getboolean v of Inl e \<Rightarrow> Inl e | Inr b \<Rightarrow> Inr (BooleanVar b))"
| "var_set v (IntVar _) = (case AsObj v of Inl e \<Rightarrow> Inl e | Inr obj \<Rightarrow> Inr (IntVar obj))"
| "var_set v (StringVar _) = (case AsObj v of Inl e \<Rightarrow> Inl e | Inr obj \<Rightarrow> Inr (StringVar obj))"

text \<open>The variables of the window as \<open>load_settings\<close> sees them: each name with what
  the variable holds.\<close>

type_synonym store = "(pystr \<times> (tclobj, tclobj) tkvar) list"

definition store :: "options \<Rightarrow> store" where
  "store opts = map (\<lambda>(var_name, var). (var_name, map_tkvar TInt TString var)) (variables opts)"

text \<open>The dict that \<open>json.load\<close> builds from the members of a JSON object: a repeated
  key keeps its first place and takes the last value.\<close>

definition dict :: "(pystr \<times> json) list \<Rightarrow> (pystr \<times> json) list" where
  "dict pairs = foldl (\<lambda>d (k, v). AList.update k v d) [] pairs"

text \<open>
  The loop of \<open>load_settings\<close> over \<open>settings.items()\<close>. A key that names no tk variable
  of the window (no attribute, or an attribute of another kind) is skipped. The result is
  the exception that ended the loop, if any, with the variables as they are then.
\<close>

fun set_items :: "(pystr \<times> json) list \<Rightarrow> store \<Rightarrow> exn option \<times> store" where
  "set_items [] st = (None, st)"
| "set_items ((key, v) # items) st =
     (case map_of st key of
        None \<Rightarrow> set_items items st
      | Some var \<Rightarrow>
          (case var_set v var of
             Inl e \<Rightarrow> (Some e, st)
           | Inr var' \<Rightarrow> set_items items (AList.update key var' st)))"

text \<open>
  \<open>load_settings\<close>, given the settings file. \<open>settings.items()\<close> raises
  \<open>AttributeError\<close> when the document is not an object. The \<open>except\<close> clause catches
  \<open>FileNotFoundError\<close>, \<open>JSONDecodeError\<close> and \<open>TypeError\<close>, and nothing else. The
  result is the exception that reaches the caller, \<open>None\<close> when the function returns,
  with the variables as it leaves them.
\<close>

definition load_settings :: "file_content option \<Rightarrow> store \<Rightarrow> exn option \<times> store" where
  "load_settings file st =
     (let (raised, st') =
        (case read_settings file of
           Inl e \<Rightarrow> (Some e, st)
         | Inr settings \<Rightarrow>
             (case settings of
                JObject pairs \<Rightarrow> set_items (dict pairs) st
              | _ \<Rightarrow> (Some AttributeError, st)))
      in if raised \<in> {Some FileNotFoundError, Some JSONDecodeError, Some TypeError}
         then (None, st') else (raised, st'))"

section \<open>Properties of the command builder\<close>

lemma mem_set_if:
  "(t \<in> set (if c then xs else ys)) = ((c \<longrightarrow> t \<in> set xs) \<and> (\<not> c \<longrightarrow> t \<in> set ys))"
  by simp

lemma ball_set_if:
  "(\<forall>t\<in>set (if c then xs else ys). P t) =
   ((c \<longrightarrow> (\<forall>t\<in>set xs. P t)) \<and> (\<not> c \<longrightarrow> (\<forall>t\<in>set ys. P t)))"
  by simp

lemma mem_set_case_option:
  "(t \<in> set (case m of None \<Rightarrow> [] | Some n \<Rightarrow> [f n])) = (\<exists>n. m = Some n \<and> t = f n)"
  by (cases m) auto

lemma ball_set_case_option:
  "(\<forall>t\<in>set (case m of None \<Rightarrow> [] | Some n \<Rightarrow> [f n]). P t) = (\<forall>n. m = Some n \<longrightarrow> P (f n))"
  by (cases m) auto

lemma count_list_if:
  "count_list (if c then xs else ys) y =
   of_bool c * count_list xs y + of_bool (\<not> c) * count_list ys y"
  by simp

lemma count_list_case_option:
  "count_list (case m of None \<Rightarrow> [] | Some n \<Rightarrow> [f n]) y =
   (case m of None \<Rightarrow> 0 | Some n \<Rightarrow> of_bool (f n = y))"
  by (cases m) auto

lemma build_Some_path: "build_scrcpy_command opts = Some cmd \<Longrightarrow> scrcpy_path opts \<noteq> []"
  by (cases "scrcpy_path opts = []") (simp_all add: build_scrcpy_command_def)

lemma build_Some_the:
  "scrcpy_path opts \<noteq> [] \<Longrightarrow> build_scrcpy_command opts = Some (the (build_scrcpy_command opts))"
  by (simp add: build_scrcpy_command_def Let_def)

lemmas build_eval =
  build_scrcpy_command_def initialize_variables_def default_bit_rate_def default_max_fps_def
  default_max_size_def default_audio_bit_rate_def default_video_buffer_ms_def
  orientation_map_def str_of_int_def digits.simps strip_def isspace_def

text \<open>
  C1. The builder returns \<open>None\<close> exactly when the executable path is the empty string;
  with a non-empty path it returns a non-empty token list whose first token is the path
  between double quotes.
\<close>

theorem build_none_iff_no_path:
  "(build_scrcpy_command opts = None \<longleftrightarrow> scrcpy_path opts = []) \<and>
   (scrcpy_path opts \<noteq> [] \<longrightarrow>
      (\<exists>cmd. build_scrcpy_command opts = Some cmd \<and> cmd \<noteq> [] \<and>
             hd cmd = [34] @ scrcpy_path opts @ [34]))"
  by (simp add: build_scrcpy_command_def Let_def)

theorem build_none_iff_no_path_witness:
  "build_scrcpy_command initialize_variables = None \<and>
   scrcpy_path (initialize_variables\<lparr>scrcpy_path := lit ''scrcpy''\<rparr>) \<noteq> [] \<and>
   (\<exists>cmd. build_scrcpy_command (initialize_variables\<lparr>scrcpy_path := lit ''scrcpy''\<rparr>) = Some cmd
      \<and> cmd \<noteq> [] \<and> hd cmd = [34] @ lit ''scrcpy'' @ [34])"
  using build_none_iff_no_path [of initialize_variables]
    build_none_iff_no_path [of "initialize_variables\<lparr>scrcpy_path := lit ''scrcpy''\<rparr>"]
  by (simp add: initialize_variables_def)

text \<open>
  C2. The tokens of a built command never hold both \<open>--video-source=camera\<close> and a token
  that begins with \<open>--video-bit-rate=\<close>.
\<close>

theorem camera_excludes_video_bit_rate:
  assumes "build_scrcpy_command opts = Some cmd"
  shows "\<not> (lit ''--video-source=camera'' \<in> set cmd \<and>
            (\<exists>t\<in>set cmd. prefix (lit ''--video-bit-rate='') t))"
proof (cases "mirror_camera opts")
  case True
  have p: "scrcpy_path opts \<noteq> []" using assms by (rule build_Some_path)
  have "\<forall>t\<in>set (the (build_scrcpy_command opts)). \<not> prefix (lit ''--video-bit-rate='') t"
    unfolding build_scrcpy_command_def Let_def using p True
    by (auto simp add: ball_set_if ball_set_case_option ball_Un split del: if_split)
  then show ?thesis using assms by auto
next
  case False
  have p: "scrcpy_path opts \<noteq> []" using assms by (rule build_Some_path)
  have "\<forall>t\<in>set (the (build_scrcpy_command opts)). t \<noteq> lit ''--video-source=camera''"
    unfolding build_scrcpy_command_def Let_def using p False
    by (auto simp add: ball_set_if ball_set_case_option ball_Un split del: if_split)
  then show ?thesis using assms by auto
qed

theorem camera_excludes_video_bit_rate_witness:
  "build_scrcpy_command (initialize_variables\<lparr>scrcpy_path := lit ''scrcpy'', mirror_camera := True\<rparr>)
     = Some [[34] @ lit ''scrcpy'' @ [34], lit ''--video-source=camera'',
             lit ''--camera-facing=back'']
   \<and> \<not> (lit ''--video-source=camera'' \<in>
          set [[34] @ lit ''scrcpy'' @ [34], lit ''--video-source=camera'',
               lit ''--camera-facing=back''] \<and>
        (\<exists>t\<in>set [[34] @ lit ''scrcpy'' @ [34], lit ''--video-source=camera'',
                  lit ''--camera-facing=back'']. prefix (lit ''--video-bit-rate='') t))"
proof -
  have h: "build_scrcpy_command
             (initialize_variables\<lparr>scrcpy_path := lit ''scrcpy'', mirror_camera := True\<rparr>)
     = Some [[34] @ lit ''scrcpy'' @ [34], lit ''--video-source=camera'',
             lit ''--camera-facing=back'']"
    by (simp add: build_eval)
  show ?thesis using h camera_excludes_video_bit_rate [OF h] by simp
qed

text \<open>
  C4. In a built command: with audio forwarding off there is exactly one \<open>--no-audio\<close>
  token and no token beginning with \<open>--audio-bit-rate\<close>; with audio forwarding on and
  the audio bit rate at its default \<open>128\<close> there is neither; with audio forwarding on and
  another bit rate \<open>v\<close> the token \<open>--audio-bit-rate=vk\<close> is there, it is the only token
  beginning with \<open>--audio-bit-rate\<close>, and there is no \<open>--no-audio\<close>.
\<close>

theorem audio_tokens:
  assumes "build_scrcpy_command opts = Some cmd"
  shows "(\<not> audio_forward opts \<longrightarrow>
            count_list cmd (lit ''--no-audio'') = 1 \<and>
            (\<forall>t\<in>set cmd. \<not> prefix (lit ''--audio-bit-rate'') t)) \<and>
         (audio_forward opts \<and> audio_bit_rate opts = lit ''128'' \<longrightarrow>
            lit ''--no-audio'' \<notin> set cmd \<and>
            (\<forall>t\<in>set cmd. \<not> prefix (lit ''--audio-bit-rate'') t)) \<and>
         (audio_forward opts \<and> audio_bit_rate opts \<noteq> lit ''128'' \<longrightarrow>
            lit ''--audio-bit-rate='' @ audio_bit_rate opts @ lit ''k'' \<in> set cmd \<and>
            lit ''--no-audio'' \<notin> set cmd \<and>
            (\<forall>t\<in>set cmd. prefix (lit ''--audio-bit-rate'') t \<longrightarrow>
               t = lit ''--audio-bit-rate='' @ audio_bit_rate opts @ lit ''k''))"
proof -
  have p: "scrcpy_path opts \<noteq> []" using assms by (rule build_Some_path)
  have cmd: "cmd = the (build_scrcpy_command opts)" using assms by simp
  have a: "\<not> audio_forward opts \<Longrightarrow> count_list cmd (lit ''--no-audio'') = 1"
    unfolding cmd build_scrcpy_command_def Let_def using p
    by (simp add: count_list_if count_list_case_option split del: if_split split: option.split)
  have b: "\<not> audio_forward opts \<or> audio_bit_rate opts = lit ''128'' \<Longrightarrow>
             \<forall>t\<in>set cmd. \<not> prefix (lit ''--audio-bit-rate'') t"
    unfolding cmd build_scrcpy_command_def Let_def default_audio_bit_rate_def using p
    by (auto simp add: ball_set_if ball_set_case_option ball_Un split del: if_split)
  have c: "audio_forward opts \<Longrightarrow> \<forall>t\<in>set cmd. t \<noteq> lit ''--no-audio''"
    unfolding cmd build_scrcpy_command_def Let_def using p
    by (auto simp add: ball_set_if ball_set_case_option ball_Un split del: if_split)
  have d: "audio_forward opts \<Longrightarrow> audio_bit_rate opts \<noteq> lit ''128'' \<Longrightarrow>
             lit ''--audio-bit-rate='' @ audio_bit_rate opts @ lit ''k'' \<in> set cmd"
    unfolding cmd build_scrcpy_command_def Let_def default_audio_bit_rate_def using p
    by (simp add: mem_set_if split del: if_split)
  have e: "\<forall>t\<in>set cmd. prefix (lit ''--audio-bit-rate'') t \<longrightarrow>
               t = lit ''--audio-bit-rate='' @ audio_bit_rate opts @ lit ''k''"
    unfolding cmd build_scrcpy_command_def Let_def default_audio_bit_rate_def using p
    by (auto simp add: ball_set_if ball_set_case_option ball_Un split del: if_split)
  show ?thesis using a b c d e by blast
qed

theorem audio_tokens_witness:
  "build_scrcpy_command (initialize_variables\<lparr>scrcpy_path := lit ''scrcpy'', audio_forward := False\<rparr>)
     = Some [[34] @ lit ''scrcpy'' @ [34], lit ''--video-bit-rate=8M'', lit ''--max-fps=60'',
             lit ''--max-size=1080'', lit ''--no-audio''] \<and>
   count_list [[34] @ lit ''scrcpy'' @ [34], lit ''--video-bit-rate=8M'', lit ''--max-fps=60'',
             lit ''--max-size=1080'', lit ''--no-audio''] (lit ''--no-audio'') = 1 \<and>
   build_scrcpy_command (initialize_variables\<lparr>scrcpy_path := lit ''scrcpy''\<rparr>)
     = Some [[34] @ lit ''scrcpy'' @ [34], lit ''--video-bit-rate=8M'', lit ''--max-fps=60'',
             lit ''--max-size=1080''] \<and>
   lit ''--no-audio'' \<notin> set [[34] @ lit ''scrcpy'' @ [34], lit ''--video-bit-rate=8M'',
             lit ''--max-fps=60'', lit ''--max-size=1080''] \<and>
   build_scrcpy_command (initialize_variables\<lparr>scrcpy_path := lit ''scrcpy'',
                                              audio_bit_rate := lit ''256''\<rparr>)
     = Some [[34] @ lit ''scrcpy'' @ [34], lit ''--video-bit-rate=8M'', lit ''--max-fps=60'',
             lit ''--max-size=1080'', lit ''--audio-bit-rate=256k''] \<and>
   lit ''--audio-bit-rate=256k'' \<in> set [[34] @ lit ''scrcpy'' @ [34], lit ''--video-bit-rate=8M'',
             lit ''--max-fps=60'', lit ''--max-size=1080'', lit ''--audio-bit-rate=256k'']"
proof -
  have h1: "build_scrcpy_command
              (initialize_variables\<lparr>scrcpy_path := lit ''scrcpy'', audio_forward := False\<rparr>)
     = Some [[34] @ lit ''scrcpy'' @ [34], lit ''--video-bit-rate=8M'', lit ''--max-fps=60'',
             lit ''--max-size=1080'', lit ''--no-audio'']"
    by (simp add: build_eval)
  have h2: "build_scrcpy_command (initialize_variables\<lparr>scrcpy_path := lit ''scrcpy''\<rparr>)
     = Some [[34] @ lit ''scrcpy'' @ [34], lit ''--video-bit-rate=8M'', lit ''--max-fps=60'',
             lit ''--max-size=1080'']"
    by (simp add: build_eval)
  have h3: "build_scrcpy_command (initialize_variables\<lparr>scrcpy_path := lit ''scrcpy'',
                                              audio_bit_rate := lit ''256''\<rparr>)
     = Some [[34] @ lit ''scrcpy'' @ [34], lit ''--video-bit-rate=8M'', lit ''--max-fps=60'',
             lit ''--max-size=1080'', lit ''--audio-bit-rate=256k'']"
    by (simp add: build_eval)
  show ?thesis
    using h1 h2 h3 audio_tokens [OF h1] audio_tokens [OF h2] audio_tokens [OF h3]
    by (simp add: initialize_variables_def)
qed

text \<open>
  C5. In camera mode with an executable path, the builder returns a command (it has no
  error outcome), and the orientation labels map as \<open>0\<degree>\<close> to 0, \<open>90\<degree>\<close> to 1,
  \<open>180\<degree>\<close> to 2, \<open>270\<degree>\<close> to 3, giving the token \<open>--capture-orientation=N\<close>; for
  every other label, \<open>Default\<close> included, no token begins with \<open>--capture-orientation=\<close>.
\<close>

theorem orientation_tokens:
  assumes "scrcpy_path opts \<noteq> []" and "mirror_camera opts"
  shows "\<exists>cmd. build_scrcpy_command opts = Some cmd \<and>
     (camera_orientation opts = lit ''0'' @ [176] \<longrightarrow> lit ''--capture-orientation=0'' \<in> set cmd) \<and>
     (camera_orientation opts = lit ''90'' @ [176] \<longrightarrow> lit ''--capture-orientation=1'' \<in> set cmd) \<and>
     (camera_orientation opts = lit ''180'' @ [176] \<longrightarrow> lit ''--capture-orientation=2'' \<in> set cmd) \<and>
     (camera_orientation opts = lit ''270'' @ [176] \<longrightarrow> lit ''--capture-orientation=3'' \<in> set cmd) \<and>
     (camera_orientation opts \<notin>
        {lit ''0'' @ [176], lit ''90'' @ [176], lit ''180'' @ [176], lit ''270'' @ [176]} \<longrightarrow>
        (\<forall>t\<in>set cmd. \<not> prefix (lit ''--capture-orientation='') t))"
proof -
  let ?cmd = "the (build_scrcpy_command opts)"
  have s: "build_scrcpy_command opts = Some ?cmd"
    using assms(1) by (rule build_Some_the)
  have m: "\<And>k n. map_of orientation_map k = Some n \<Longrightarrow> camera_orientation opts = k \<Longrightarrow>
             lit ''--capture-orientation='' @ n \<in> set ?cmd"
    unfolding build_scrcpy_command_def Let_def using assms
    by (simp add: mem_set_if mem_set_case_option split del: if_split)
  have n: "map_of orientation_map (camera_orientation opts) = None \<Longrightarrow>
             \<forall>t\<in>set ?cmd. \<not> prefix (lit ''--capture-orientation='') t"
    unfolding build_scrcpy_command_def Let_def using assms
    by (auto simp add: ball_set_if ball_set_case_option ball_Un split del: if_split)
  have k0: "map_of orientation_map (lit ''0'' @ [176]) = Some (lit ''0'')"
    and k1: "map_of orientation_map (lit ''90'' @ [176]) = Some (lit ''1'')"
    and k2: "map_of orientation_map (lit ''180'' @ [176]) = Some (lit ''2'')"
    and k3: "map_of orientation_map (lit ''270'' @ [176]) = Some (lit ''3'')"
    by (simp_all add: orientation_map_def)
  have kn: "k \<notin> {lit ''0'' @ [176], lit ''90'' @ [176], lit ''180'' @ [176], lit ''270'' @ [176]}
              \<Longrightarrow> map_of orientation_map k = None" for k
    by (simp add: orientation_map_def)
  show ?thesis
    using s m [OF k0] m [OF k1] m [OF k2] m [OF k3] n kn [of "camera_orientation opts"]
    by (intro exI [of _ ?cmd]) simp
qed

theorem orientation_tokens_witness:
  "(\<exists>cmd. build_scrcpy_command
            (initialize_variables\<lparr>scrcpy_path := lit ''scrcpy'', mirror_camera := True,
                                  camera_orientation := lit ''90'' @ [176]\<rparr>) = Some cmd \<and>
          lit ''--capture-orientation=1'' \<in> set cmd) \<and>
   (\<exists>cmd. build_scrcpy_command
            (initialize_variables\<lparr>scrcpy_path := lit ''scrcpy'', mirror_camera := True\<rparr>) = Some cmd \<and>
          (\<forall>t\<in>set cmd. \<not> prefix (lit ''--capture-orientation='') t))"
  using orientation_tokens [of "initialize_variables\<lparr>scrcpy_path := lit ''scrcpy'',
            mirror_camera := True, camera_orientation := lit ''90'' @ [176]\<rparr>"]
    orientation_tokens [of "initialize_variables\<lparr>scrcpy_path := lit ''scrcpy'',
            mirror_camera := True\<rparr>"]
  by (simp add: initialize_variables_def)

text \<open>
  C7. With the path \<open>/usr/bin/scrcpy\<close>, bit rate 8, max FPS 60, max resolution \<open>1080\<close>,
  the five flags off, camera mode off, audio forwarding on at bit rate \<open>128\<close>, recording
  off, both codecs \<open>Default\<close>, video buffer 0 and an empty V4L2 path, the builder returns
  the quoted path, \<open>--video-bit-rate=8M\<close>, \<open>--max-fps=60\<close> and \<open>--max-size=1080\<close>, in
  this order, whatever the other fields hold.
\<close>

theorem default_screen_scenario:
  "build_scrcpy_command
     (opts\<lparr> scrcpy_path := lit ''/usr/bin/scrcpy'', bit_rate := 8, max_fps := 60,
            max_size := lit ''1080'', fullscreen := False, always_on_top := False,
            show_touches := False, turn_screen_off := False, stay_awake := False,
            mirror_camera := False, audio_forward := True, audio_bit_rate := lit ''128'',
            record_screen := False, video_codec := lit ''Default'',
            audio_codec := lit ''Default'', video_buffer := 0, v4l2_sink_path := [] \<rparr>)
   = Some [[34] @ lit ''/usr/bin/scrcpy'' @ [34], lit ''--video-bit-rate=8M'',
           lit ''--max-fps=60'', lit ''--max-size=1080'']"
  by (simp add: build_scrcpy_command_def str_of_int_def digits.simps strip_def
        default_audio_bit_rate_def)

theorem default_screen_scenario_witness:
  "build_scrcpy_command
     (initialize_variables
        \<lparr> scrcpy_path := lit ''/usr/bin/scrcpy'', bit_rate := 8, max_fps := 60,
          max_size := lit ''1080'', fullscreen := False, always_on_top := False,
          show_touches := False, turn_screen_off := False, stay_awake := False,
          mirror_camera := False, audio_forward := True, audio_bit_rate := lit ''128'',
          record_screen := False, video_codec := lit ''Default'',
          audio_codec := lit ''Default'', video_buffer := 0, v4l2_sink_path := [] \<rparr>)
   = Some [[34] @ lit ''/usr/bin/scrcpy'' @ [34], lit ''--video-bit-rate=8M'',
           lit ''--max-fps=60'', lit ''--max-size=1080'']"
  by (rule default_screen_scenario)

text \<open>
  C9. In camera mode the camera size is compared with \<open>Default\<close> before it is stripped:
  a size that differs from \<open>Default\<close> but strips to it gives the token
  \<open>--camera-size=Default\<close>, and the size \<open>Default\<close> itself gives no token beginning
  with \<open>--camera-size=\<close>.
\<close>

theorem camera_size_compared_before_strip:
  assumes "scrcpy_path opts \<noteq> []" and "mirror_camera opts"
  shows "\<exists>cmd. build_scrcpy_command opts = Some cmd \<and>
     (camera_size opts \<noteq> lit ''Default'' \<and> strip (camera_size opts) = lit ''Default'' \<longrightarrow>
        lit ''--camera-size=Default'' \<in> set cmd) \<and>
     (camera_size opts = lit ''Default'' \<longrightarrow>
        (\<forall>t\<in>set cmd. \<not> prefix (lit ''--camera-size='') t))"
proof -
  let ?cmd = "the (build_scrcpy_command opts)"
  have s: "build_scrcpy_command opts = Some ?cmd"
    using assms(1) by (rule build_Some_the)
  have a: "camera_size opts \<noteq> lit ''Default'' \<Longrightarrow> strip (camera_size opts) = lit ''Default'' \<Longrightarrow>
        lit ''--camera-size=Default'' \<in> set ?cmd"
    unfolding build_scrcpy_command_def Let_def using assms
    by (simp add: mem_set_if mem_set_case_option split del: if_split)
  have b: "camera_size opts = lit ''Default'' \<Longrightarrow>
        \<forall>t\<in>set ?cmd. \<not> prefix (lit ''--camera-size='') t"
    unfolding build_scrcpy_command_def Let_def using assms
    by (auto simp add: ball_set_if ball_set_case_option ball_Un split del: if_split)
  show ?thesis using s a b by (intro exI [of _ ?cmd]) simp
qed

theorem camera_size_compared_before_strip_witness:
  "lit '' Default '' \<noteq> lit ''Default'' \<and> strip (lit '' Default '') = lit ''Default'' \<and>
   (\<exists>cmd. build_scrcpy_command
            (initialize_variables\<lparr>scrcpy_path := lit ''scrcpy'', mirror_camera := True,
                                  camera_size := lit '' Default ''\<rparr>) = Some cmd \<and>
          lit ''--camera-size=Default'' \<in> set cmd) \<and>
   (\<exists>cmd. build_scrcpy_command
            (initialize_variables\<lparr>scrcpy_path := lit ''scrcpy'', mirror_camera := True\<rparr>) = Some cmd \<and>
          (\<forall>t\<in>set cmd. \<not> prefix (lit ''--camera-size='') t))"
  using camera_size_compared_before_strip [of "initialize_variables\<lparr>scrcpy_path := lit ''scrcpy'',
            mirror_camera := True, camera_size := lit '' Default ''\<rparr>"]
    camera_size_compared_before_strip [of "initialize_variables\<lparr>scrcpy_path := lit ''scrcpy'',
            mirror_camera := True\<rparr>"]
  by (simp add: initialize_variables_def strip_def isspace_def)

section \<open>Properties of the launch action\<close>

lemma build_Some_nonempty: "build_scrcpy_command opts = Some cmd \<Longrightarrow> cmd \<noteq> []"
  by (cases "scrcpy_path opts = []") (auto simp add: build_scrcpy_command_def Let_def)

text \<open>
  C8. Whenever the builder gives a command, the launch action makes exactly one call of the
  process launcher: it runs the tokens joined by single spaces, through the shell, in the
  directory \<open>os.path.dirname\<close> of the executable path; it issues no call that waits for
  the child, and ends by scheduling the reset of the connect button. This holds whether or
  not the launcher raises.
\<close>

theorem launch_runs_joined_command:
  assumes "build_scrcpy_command opts = Some cmd"
  shows "filter (\<lambda>e. case e of Popen _ _ _ \<Rightarrow> True | _ \<Rightarrow> False)
           (launch_scrcpy dirname popen_error opts)
           = [Popen (join (lit '' '') cmd) True (dirname (scrcpy_path opts))] \<and>
         Wait \<notin> set (launch_scrcpy dirname popen_error opts) \<and>
         last (launch_scrcpy dirname popen_error opts) = After 3000"
  using assms build_Some_nonempty [OF assms]
  by (cases popen_error) (simp_all add: launch_scrcpy_def Let_def)

theorem launch_runs_joined_command_witness:
  "build_scrcpy_command (initialize_variables\<lparr>scrcpy_path := lit ''/usr/bin/scrcpy''\<rparr>)
     = Some [[34] @ lit ''/usr/bin/scrcpy'' @ [34], lit ''--video-bit-rate=8M'',
             lit ''--max-fps=60'', lit ''--max-size=1080''] \<and>
   filter (\<lambda>e. case e of Popen _ _ _ \<Rightarrow> True | _ \<Rightarrow> False)
     (launch_scrcpy posix_dirname None (initialize_variables\<lparr>scrcpy_path := lit ''/usr/bin/scrcpy''\<rparr>))
     = [Popen ([34] @ lit ''/usr/bin/scrcpy'' @ [34]
                 @ lit '' --video-bit-rate=8M --max-fps=60 --max-size=1080'')
              True (lit ''/usr/bin'')]"
proof -
  have h: "build_scrcpy_command (initialize_variables\<lparr>scrcpy_path := lit ''/usr/bin/scrcpy''\<rparr>)
     = Some [[34] @ lit ''/usr/bin/scrcpy'' @ [34], lit ''--video-bit-rate=8M'',
             lit ''--max-fps=60'', lit ''--max-size=1080'']"
    by (simp add: build_eval)
  have d: "posix_dirname (lit ''/usr/bin/scrcpy'') = lit ''/usr/bin''"
    by (simp add: posix_dirname_def)
  show ?thesis
    using h d launch_runs_joined_command [OF h, of posix_dirname None]
    by simp
qed

section \<open>Properties of the settings store\<close>

lemma settings_to_save_eq:
  "settings_to_save opts =
     [(lit ''always_on_top'', JBool (always_on_top opts)),
      (lit ''audio_bit_rate'', JString (audio_bit_rate opts)),
      (lit ''audio_codec'', JString (audio_codec opts)),
      (lit ''audio_forward'', JBool (audio_forward opts)),
      (lit ''bit_rate'', JInt (bit_rate opts)),
      (lit ''camera_facing'', JString (camera_facing opts)),
      (lit ''camera_orientation'', JString (camera_orientation opts)),
      (lit ''camera_size'', JString (camera_size opts)),
      (lit ''dark_mode'', JBool (dark_mode opts)),
      (lit ''fullscreen'', JBool (fullscreen opts)),
      (lit ''generated_command'', JString (generated_command opts)),
      (lit ''max_fps'', JInt (max_fps opts)),
      (lit ''max_size'', JString (max_size opts)),
      (lit ''mirror_camera'', JBool (mirror_camera opts)),
      (lit ''record_file_path'', JString (record_file_path opts)),
      (lit ''record_screen'', JBool (record_screen opts)),
      (lit ''scrcpy_path'', JString (scrcpy_path opts)),
      (lit ''show_touches'', JBool (show_touches opts)),
      (lit ''stay_awake'', JBool (stay_awake opts)),
      (lit ''turn_screen_off'', JBool (turn_screen_off opts)),
      (lit ''v4l2_sink_path'', JString (v4l2_sink_path opts)),
      (lit ''video_buffer'', JInt (video_buffer opts)),
      (lit ''video_codec'', JString (video_codec opts))]"
  by (simp add: settings_to_save_def variables_def)

lemma dict_saved: "dict (settings_to_save opts) = settings_to_save opts"
  by (simp add: settings_to_save_eq dict_def)

lemma set_items_saved: "set_items (settings_to_save S) (store T) = (None, store S)"
  by (simp add: settings_to_save_eq store_def variables_def getboolean_def)

lemma load_save: "load_settings (save_settings Written S) (store T) = (None, store S)"
  by (simp add: load_settings_def save_settings_def dict_saved set_items_saved)

lemma load_absent: "load_settings None st = (None, st)"
  by (simp add: load_settings_def)



text \<open>The variables determine the option set: two option sets with the same variables
  are equal.\<close>

lemma store_inject: "store S = store S' \<longleftrightarrow> S = S'"
  by (cases S, cases S') (auto simp add: store_def variables_def)






text \<open>
  C6. Saving an option set and loading the written file into the variables of a fresh
  window restores the variables of the saved option set, every one of them, without an
  exception; loading when there is no file leaves the fresh variables at their defaults.
\<close>

theorem save_load_round_trip:
  "load_settings (save_settings Written S) (store initialize_variables) = (None, store S) \<and>
   load_settings None (store initialize_variables) = (None, store initialize_variables)"
  by (simp add: load_save load_absent)

theorem save_load_round_trip_witness:
  "load_settings
     (save_settings Written
        (initialize_variables\<lparr>scrcpy_path := lit ''/usr/bin/scrcpy'', bit_rate := 20,
                              fullscreen := True\<rparr>))
     (store initialize_variables)
   = (None, store (initialize_variables\<lparr>scrcpy_path := lit ''/usr/bin/scrcpy'', bit_rate := 20,
                                        fullscreen := True\<rparr>)) \<and>
   map_of (store (initialize_variables\<lparr>scrcpy_path := lit ''/usr/bin/scrcpy'', bit_rate := 20,
                                        fullscreen := True\<rparr>)) (lit ''bit_rate'')
     = Some (IntVar (TInt 20))"
proof -
  have h: "map_of (store (initialize_variables\<lparr>scrcpy_path := lit ''/usr/bin/scrcpy'',
                            bit_rate := 20, fullscreen := True\<rparr>)) (lit ''bit_rate'')
             = Some (IntVar (TInt 20))"
    by (simp add: store_def variables_def)
  show ?thesis
    using save_load_round_trip
            [of "initialize_variables\<lparr>scrcpy_path := lit ''/usr/bin/scrcpy'', bit_rate := 20,
                                      fullscreen := True\<rparr>", THEN conjunct1] h
    by (rule conjI)
qed

text \<open>
  C10. The saved map has one key for each tk variable of the window, the theme flag
  \<open>dark_mode\<close> and the command preview \<open>generated_command\<close> among them, each with the
  value of its variable; and loading the written file sets these two variables, like the
  others, to the values of the file, whatever they held before.
\<close>

theorem save_writes_every_tk_variable:
  "map fst (settings_to_save opts) =
     [lit ''always_on_top'', lit ''audio_bit_rate'', lit ''audio_codec'', lit ''audio_forward'',
      lit ''bit_rate'', lit ''camera_facing'', lit ''camera_orientation'', lit ''camera_size'',
      lit ''dark_mode'', lit ''fullscreen'', lit ''generated_command'', lit ''max_fps'',
      lit ''max_size'', lit ''mirror_camera'', lit ''record_file_path'', lit ''record_screen'',
      lit ''scrcpy_path'', lit ''show_touches'', lit ''stay_awake'', lit ''turn_screen_off'',
      lit ''v4l2_sink_path'', lit ''video_buffer'', lit ''video_codec''] \<and>
   map_of (settings_to_save opts) (lit ''dark_mode'') = Some (JBool (dark_mode opts)) \<and>
   map_of (settings_to_save opts) (lit ''generated_command'')
     = Some (JString (generated_command opts)) \<and>
   fst (load_settings (save_settings Written opts) (store T)) = None \<and>
   map_of (snd (load_settings (save_settings Written opts) (store T))) (lit ''dark_mode'')
     = Some (BooleanVar (dark_mode opts)) \<and>
   map_of (snd (load_settings (save_settings Written opts) (store T))) (lit ''generated_command'')
     = Some (StringVar (TString (generated_command opts)))"
proof -
  have k: "map fst (settings_to_save opts) =
     [lit ''always_on_top'', lit ''audio_bit_rate'', lit ''audio_codec'', lit ''audio_forward'',
      lit ''bit_rate'', lit ''camera_facing'', lit ''camera_orientation'', lit ''camera_size'',
      lit ''dark_mode'', lit ''fullscreen'', lit ''generated_command'', lit ''max_fps'',
      lit ''max_size'', lit ''mirror_camera'', lit ''record_file_path'', lit ''record_screen'',
      lit ''scrcpy_path'', lit ''show_touches'', lit ''stay_awake'', lit ''turn_screen_off'',
      lit ''v4l2_sink_path'', lit ''video_buffer'', lit ''video_codec'']"
    by (simp add: settings_to_save_eq)
  have d: "map_of (settings_to_save opts) (lit ''dark_mode'') = Some (JBool (dark_mode opts))"
    by (simp add: settings_to_save_eq)
  have g: "map_of (settings_to_save opts) (lit ''generated_command'')
             = Some (JString (generated_command opts))"
    by (simp add: settings_to_save_eq)
  have sd: "map_of (store opts) (lit ''dark_mode'') = Some (BooleanVar (dark_mode opts))"
    by (simp add: store_def variables_def)
  have sg: "map_of (store opts) (lit ''generated_command'')
              = Some (StringVar (TString (generated_command opts)))"
    by (simp add: store_def variables_def)
  show ?thesis using k d g sd sg by (simp add: load_save)
qed

theorem save_writes_every_tk_variable_witness:
  "map_of (settings_to_save initialize_variables) (lit ''dark_mode'') = Some (JBool True) \<and>
   map_of (settings_to_save initialize_variables) (lit ''generated_command'')
     = Some (JString (lit ''Please select the scrcpy executable...'')) \<and>
   map_of (snd (load_settings (save_settings Written initialize_variables)
                  (store (initialize_variables\<lparr>dark_mode := False\<rparr>)))) (lit ''dark_mode'')
     = Some (BooleanVar True)"
  using save_writes_every_tk_variable
          [of initialize_variables "initialize_variables\<lparr>dark_mode := False\<rparr>"]
  by (simp add: initialize_variables_def)

text \<open>
  Inputs on which \<open>load_settings\<close> raises to its caller, although its comment reads
  ``ignore if file doesn't exist, is empty, or is corrupted'': a file that is not text, a
  document that \<open>json.load\<close> refuses for its depth or for a long integer, a document
  that is not an object, a string that Tcl does not read as a boolean given to a
  \<open>BooleanVar\<close>, and a string with a lone surrogate given to any variable.
\<close>

lemma load_raises_on_read:
  "load_settings (Some Unreadable) st = (Some OSError, st)"
  "load_settings (Some Undecodable) st = (Some UnicodeDecodeError, st)"
  "load_settings (Some TooDeep) st = (Some RecursionError, st)"
  "load_settings (Some HugeInt) st = (Some ValueError, st)"
  by (simp_all add: load_settings_def)

lemma load_raises_AttributeError:
  "load_settings (Some (Json (JArray []))) st = (Some AttributeError, st)"
  by (simp add: load_settings_def)

lemma load_raises_TclError:
  "fst (load_settings (Some (Json (JObject [(lit ''fullscreen'', JString (lit ''abc''))])))
          (store initialize_variables)) = Some TclError"
  by (simp add: load_settings_def dict_def store_def variables_def initialize_variables_def
        getboolean_def Tcl_GetBoolean_def lower_def)

lemma load_raises_UnicodeEncodeError:
  "fst (load_settings (Some (Json (JObject [(lit ''scrcpy_path'', JLoneSurrogate)])))
          (store initialize_variables)) = Some UnicodeEncodeError"
  by (simp add: load_settings_def dict_def store_def variables_def initialize_variables_def)

text \<open>Values of another type that end up in a variable: \<open>null\<close> for a \<open>StringVar\<close>
  is stored as the string \<open>None\<close>, a string for an \<open>IntVar\<close> as that string.\<close>

lemma load_stores_str_of_None:
  "load_settings (Some (Json (JObject [(lit ''scrcpy_path'', JNull)]))) (store initialize_variables)
     = (None, AList.update (lit ''scrcpy_path'') (StringVar (TString (lit ''None'')))
                (store initialize_variables))"
  by (simp add: load_settings_def dict_def store_def variables_def initialize_variables_def)

lemma load_stores_string_in_IntVar:
  "load_settings (Some (Json (JObject [(lit ''bit_rate'', JString (lit ''fast''))])))
       (store initialize_variables)
     = (None, AList.update (lit ''bit_rate'') (IntVar (TString (lit ''fast'')))
                (store initialize_variables))"
  by (simp add: load_settings_def dict_def store_def variables_def initialize_variables_def)

end
